theory Spec2Isabelle
  imports Complex_Main "HOL-Library.Multiset"
begin

chapter \<open>The embedding of \<open>src/pipelines.js\<close>\<close>

section \<open>JavaScript values used by the pipelines\<close>

text \<open>
  The module \<open>src/pipelines.js\<close> is embedded function by function. Exceptions are
  values: \<open>Error\<close> is a \<open>throw Error(...)\<close> of the module with its message,
  \<open>TypeError\<close> is raised by the language itself (calling something that is not a
  function, reading a property of \<open>undefined\<close>); its text names the expression.
\<close>

datatype error = Error string | TypeError string

text \<open>
  An object literal \<open>{...}\<close> has \<open>Object.prototype\<close> as its prototype, so the
  read \<open>obj[key]\<close> finds the object's own entries first and the members of
  \<open>Object.prototype\<close> after them. All of those members are functions or objects:
  none is \<open>null\<close> or \<open>undefined\<close>, all are truthy, and none is a string.
\<close>

definition Object_prototype :: "string list" where
  "Object_prototype =
    [''constructor'', ''__defineGetter__'', ''__defineSetter__'', ''hasOwnProperty'',
     ''__lookupGetter__'', ''__lookupSetter__'', ''isPrototypeOf'',
     ''propertyIsEnumerable'', ''toString'', ''valueOf'', ''__proto__'',
     ''toLocaleString'']"

datatype 'v property = Own 'v | Inherited | Missing

definition get_property :: "(string \<times> 'v) list \<Rightarrow> string \<Rightarrow> 'v property" where
  "get_property obj k =
    (case map_of obj k of
       Some v \<Rightarrow> Own v
     | None \<Rightarrow> if k \<in> set Object_prototype then Inherited else Missing)"

text \<open>\<open>Object.keys(obj)\<close>: the own keys in insertion order; an array inside a template
  literal is joined with commas.\<close>

definition Object_keys :: "(string \<times> 'v) list \<Rightarrow> string list" where
  "Object_keys obj = map fst obj"

fun join_comma :: "string list \<Rightarrow> string" where
  "join_comma [] = []"
| "join_comma [x] = x"
| "join_comma (x # y # ys) = x @ '','' @ join_comma (y # ys)"

section \<open>The task registry and the pipeline factory\<close>

datatype loader =
    AutoTokenizer | AutoProcessor | AutoModel
  | AutoModelForSequenceClassification | AutoModelForTokenClassification
  | AutoModelForQuestionAnswering | AutoModelForMaskedLM | AutoModelForSeq2SeqLM
  | AutoModelForCausalLM | AutoModelForVision2Seq | AutoModelForImageClassification
  | AutoModelForImageSegmentation | AutoModelForObjectDetection

datatype pipeline_class =
    TextClassificationPipeline | TokenClassificationPipeline | QuestionAnsweringPipeline
  | FillMaskPipeline | SummarizationPipeline | TranslationPipeline
  | Text2TextGenerationPipeline | TextGenerationPipeline | ZeroShotClassificationPipeline
  | AutomaticSpeechRecognitionPipeline | ImageToTextPipeline | ImageClassificationPipeline
  | ImageSegmentationPipeline | ZeroShotImageClassificationPipeline
  | ObjectDetectionPipeline | FeatureExtractionPipeline

record task_info =
  tokenizerClass :: "loader option"
  pipelineClass :: pipeline_class
  modelClass :: loader
  processorClass :: "loader option"
  default_model :: string
  task_type :: string

definition text_task :: "pipeline_class \<Rightarrow> loader \<Rightarrow> string \<Rightarrow> task_info" where
  "text_task p m d =
    \<lparr>tokenizerClass = Some AutoTokenizer, pipelineClass = p, modelClass = m,
     processorClass = None, default_model = d, task_type = ''text''\<rparr>"

definition multimodal_task ::
  "loader option \<Rightarrow> pipeline_class \<Rightarrow> loader \<Rightarrow> string \<Rightarrow> task_info" where
  "multimodal_task t p m d =
    \<lparr>tokenizerClass = t, pipelineClass = p, modelClass = m,
     processorClass = Some AutoProcessor, default_model = d, task_type = ''multimodal''\<rparr>"

definition SUPPORTED_TASKS :: "(string \<times> task_info) list" where
  "SUPPORTED_TASKS =
    [(''text-classification'',
        text_task TextClassificationPipeline AutoModelForSequenceClassification
          ''Xenova/distilbert-base-uncased-finetuned-sst-2-english''),
     (''token-classification'',
        text_task TokenClassificationPipeline AutoModelForTokenClassification
          ''Xenova/bert-base-multilingual-cased-ner-hrl''),
     (''question-answering'',
        text_task QuestionAnsweringPipeline AutoModelForQuestionAnswering
          ''Xenova/distilbert-base-cased-distilled-squad''),
     (''fill-mask'',
        text_task FillMaskPipeline AutoModelForMaskedLM ''Xenova/bert-base-uncased''),
     (''summarization'',
        text_task SummarizationPipeline AutoModelForSeq2SeqLM ''Xenova/distilbart-cnn-6-6''),
     (''translation'',
        text_task TranslationPipeline AutoModelForSeq2SeqLM ''Xenova/t5-small''),
     (''text2text-generation'',
        text_task Text2TextGenerationPipeline AutoModelForSeq2SeqLM ''Xenova/flan-t5-small''),
     (''text-generation'',
        text_task TextGenerationPipeline AutoModelForCausalLM ''Xenova/gpt2''),
     (''zero-shot-classification'',
        text_task ZeroShotClassificationPipeline AutoModelForSequenceClassification
          ''Xenova/distilbert-base-uncased-mnli''),
     (''automatic-speech-recognition'',
        multimodal_task (Some AutoTokenizer) AutomaticSpeechRecognitionPipeline
          AutoModelForSeq2SeqLM ''Xenova/whisper-tiny.en''),
     (''image-to-text'',
        multimodal_task (Some AutoTokenizer) ImageToTextPipeline AutoModelForVision2Seq
          ''Xenova/vit-gpt2-image-captioning''),
     (''image-classification'',
        multimodal_task None ImageClassificationPipeline AutoModelForImageClassification
          ''Xenova/vit-base-patch16-224''),
     (''image-segmentation'',
        multimodal_task None ImageSegmentationPipeline AutoModelForImageSegmentation
          ''Xenova/detr-resnet-50-panoptic''),
     (''zero-shot-image-classification'',
        multimodal_task (Some AutoTokenizer) ZeroShotImageClassificationPipeline AutoModel
          ''Xenova/clip-vit-base-patch32''),
     (''object-detection'',
        multimodal_task None ObjectDetectionPipeline AutoModelForObjectDetection
          ''Xenova/detr-resnet-50''),
     (''feature-extraction'',
        text_task FeatureExtractionPipeline AutoModel ''Xenova/all-MiniLM-L6-v2'')]"

definition TASK_ALIASES :: "(string \<times> string) list" where
  "TASK_ALIASES =
    [(''sentiment-analysis'', ''text-classification''),
     (''ner'', ''token-classification''),
     (''vqa'', ''visual-question-answering''),
     (''embeddings'', ''feature-extraction'')]"

text \<open>\<open>task.split('_', 1)[0]\<close>: the part of the name before its first underscore.\<close>

definition first_segment :: "string \<Rightarrow> string" where
  "first_segment task = takeWhile (\<lambda>c. c \<noteq> CHR ''_'') task"

definition unsupported_message :: "string \<Rightarrow> string" where
  "unsupported_message task =
    ''Unsupported pipeline: '' @ task @ ''. Must be one of ['' @
      join_comma (Object_keys SUPPORTED_TASKS) @ '']''"

text \<open>
  What the factory hands to \<open>new pipelineClass(task, ...items)\<close>: the class, the resolved
  task name and, in the order tokenizer, model, processor, one \<open>from_pretrained(model,
  pretrainedOptions)\<close> request per collaborator class the descriptor has. Loading itself,
  the console notice about the default model and the progress callback belong to the
  collaborators and are left out.
\<close>

record 'o pipeline_object =
  constructed :: pipeline_class
  task_name :: string
  collaborators :: "(loader \<times> string \<times> 'o) list"

text \<open>\<open>!model\<close> holds for \<open>null\<close> and for the empty string.\<close>

definition model_or_default :: "string option \<Rightarrow> string \<Rightarrow> string" where
  "model_or_default model d =
    (case model of None \<Rightarrow> d | Some m \<Rightarrow> if m = [] then d else m)"

definition from_pretrained :: "loader option \<Rightarrow> string \<Rightarrow> 'o \<Rightarrow> (loader \<times> string \<times> 'o) list" where
  "from_pretrained c model pretrainedOptions =
    (case c of None \<Rightarrow> [] | Some l \<Rightarrow> [(l, model, pretrainedOptions)])"

definition pipeline :: "string \<Rightarrow> string option \<Rightarrow> 'o \<Rightarrow> error + 'o pipeline_object" where
  "pipeline task model pretrainedOptions =
    (case get_property TASK_ALIASES task of
       Inherited \<Rightarrow> Inl (TypeError ''task.split is not a function'')
     | aliased \<Rightarrow>
        (let task = (case aliased of Own t \<Rightarrow> t | _ \<Rightarrow> task) in
         case get_property SUPPORTED_TASKS (first_segment task) of
           Missing \<Rightarrow> Inl (Error (unsupported_message task))
         | Inherited \<Rightarrow>
             if model_or_default model [] = []
             then Inl (TypeError ''pipelineInfo.default is undefined'')
             else Inl (TypeError ''pipelineClass is not a constructor'')
         | Own pipelineInfo \<Rightarrow>
             (let model = model_or_default model (default_model pipelineInfo)
              in Inr \<lparr>constructed = pipelineClass pipelineInfo, task_name = task,
                      collaborators = from_pretrained (tokenizerClass pipelineInfo) model pretrainedOptions
                            @ from_pretrained (Some (modelClass pipelineInfo)) model pretrainedOptions
                            @ from_pretrained (processorClass pipelineInfo) model pretrainedOptions\<rparr>)))"

section \<open>Numbers, arrays and results\<close>

text \<open>
  Numbers are IEEE doubles in the source. The embedding computes with reals (no rounding,
  no overflow, one zero) and adds the three values a division can leave the reals with:
  \<open>x / 0\<close> is \<open>NaN\<close> for \<open>x = 0\<close> and an infinity otherwise, where HOL's own
  \<open>x / 0\<close> would be \<open>0\<close>. Reading an array past its end gives \<open>undefined\<close>, which
  arithmetic and \<open>Number(...)\<close> turn into \<open>NaN\<close>.
\<close>

datatype number = Num real | PosInf | NegInf | NaN

fun js_add :: "number \<Rightarrow> number \<Rightarrow> number" where
  "js_add (Num x) (Num y) = Num (x + y)"
| "js_add NaN _ = NaN"
| "js_add _ NaN = NaN"
| "js_add PosInf NegInf = NaN"
| "js_add NegInf PosInf = NaN"
| "js_add PosInf _ = PosInf"
| "js_add _ PosInf = PosInf"
| "js_add NegInf _ = NegInf"
| "js_add _ NegInf = NegInf"

definition infinity :: "bool \<Rightarrow> number" where
  "infinity positive = (if positive then PosInf else NegInf)"

fun js_mul :: "number \<Rightarrow> number \<Rightarrow> number" where
  "js_mul (Num x) (Num y) = Num (x * y)"
| "js_mul NaN _ = NaN"
| "js_mul _ NaN = NaN"
| "js_mul (Num x) PosInf = (if x = 0 then NaN else infinity (0 < x))"
| "js_mul (Num x) NegInf = (if x = 0 then NaN else infinity (x < 0))"
| "js_mul PosInf (Num y) = (if y = 0 then NaN else infinity (0 < y))"
| "js_mul NegInf (Num y) = (if y = 0 then NaN else infinity (y < 0))"
| "js_mul PosInf PosInf = PosInf"
| "js_mul NegInf NegInf = PosInf"
| "js_mul PosInf NegInf = NegInf"
| "js_mul NegInf PosInf = NegInf"

fun js_div :: "number \<Rightarrow> number \<Rightarrow> number" where
  "js_div (Num x) (Num y) =
     (if y \<noteq> 0 then Num (x / y) else if x = 0 then NaN else infinity (0 < x))"
| "js_div NaN _ = NaN"
| "js_div _ NaN = NaN"
| "js_div (Num x) _ = Num 0"
| "js_div PosInf (Num y) = infinity (0 \<le> y)"
| "js_div NegInf (Num y) = infinity (y < 0)"
| "js_div _ _ = NaN"

text \<open>\<open>arr[i]\<close> on an array of finite numbers, and \<open>Number(arr[i])\<close> on an array of
  integers (the attention mask holds 64-bit integers).\<close>

definition read_at :: "real list \<Rightarrow> nat \<Rightarrow> number" where
  "read_at arr i = (if i < length arr then Num (arr ! i) else NaN)"

definition Number_at :: "int list \<Rightarrow> nat \<Rightarrow> number" where
  "Number_at arr i = (if i < length arr then Num (of_int (arr ! i)) else NaN)"

text \<open>A tensor is its shape and its flat data.\<close>

record ('d, 'a) tensor =
  dims :: 'd
  data :: "'a list"

text \<open>
  What a call returns: an object (its fields as a tuple), an array, or \<open>undefined\<close>
  (\<open>toReturn[0]\<close> of an empty array). The caller's input is one item or an array of items
  (\<open>Array.isArray\<close>).
\<close>

datatype 'a js = Obj 'a | Arr "'a js list" | Undefined

datatype 'a input = Single 'a | Many "'a list"

fun isArray :: "'a input \<Rightarrow> bool" where
  "isArray (Single x) = False"
| "isArray (Many xs) = True"

fun to_array :: "'a input \<Rightarrow> 'a list" where
  "to_array (Single x) = [x]"
| "to_array (Many xs) = xs"

definition first :: "'a js list \<Rightarrow> 'a js" where
  "first toReturn = (case toReturn of [] \<Rightarrow> Undefined | x # _ \<Rightarrow> x)"

text \<open>\<open>arr.sort((a, b) => score(b) - score(a))\<close>: descending by score; the sort is stable,
  so equal scores keep their order.\<close>

definition sort_desc :: "('a \<Rightarrow> real) \<Rightarrow> 'a list \<Rightarrow> 'a list" where
  "sort_desc score arr = sort_key (\<lambda>x. - score x) arr"

definition descending :: "real list \<Rightarrow> bool" where
  "descending scores = sorted_wrt (\<lambda>a b. b \<le> a) scores"

section \<open>Helpers of \<open>utils/maths.js\<close>\<close>

text \<open>
  Modelled from the spec: \<open>softmax\<close> and \<open>getTopItems\<close> are imported from
  \<open>./utils/maths.js\<close>, which is not among the sources. The specification gives them as
  "numerically-stable softmax (subtract max logit before exponentiating)" and "select the
  topk highest-scoring (label,score) pairs, ties broken by first-seen index (stable
  sort)". It does not say what \<open>softmax\<close> does with an empty array; here that is the
  empty array.
\<close>

definition softmax :: "real list \<Rightarrow> real list" where
  "softmax arr =
    (if arr = [] then []
     else let maxVal = Max (set arr);
              exps = map (\<lambda>x. exp (x - maxVal)) arr;
              sumExps = sum_list exps
          in map (\<lambda>x. x / sumExps) exps)"

definition getTopItems :: "real list \<Rightarrow> nat \<Rightarrow> (nat \<times> real) list" where
  "getTopItems items top_k = take top_k (sort_desc snd (enumerate 0 items))"

section \<open>Text and image classification\<close>

text \<open>
  \<open>model texts\<close> stands for \<open>super._call(texts)\<close>: tokenizer and model, giving the rows
  of \<open>outputs.logits\<close>. \<open>id2label\<close> is the table of the model's configuration; a missing
  id gives the label \<open>undefined\<close> (\<open>None\<close>). An element of the result is the object
  \<open>{label, score}\<close>.
\<close>

definition vals :: "(nat \<Rightarrow> 'l option) \<Rightarrow> nat \<Rightarrow> real list \<Rightarrow> ('l option \<times> real) list" where
  "vals id2label topk batch =
    map (\<lambda>x. (id2label (fst x), snd x)) (getTopItems (softmax batch) topk)"

definition push_vals :: "nat \<Rightarrow> 'a list \<Rightarrow> 'a js list" where
  "push_vals topk vs = (if topk = 1 then map Obj vs else [Arr (map Obj vs)])"



definition prepareImages :: "('a \<Rightarrow> 'i) \<Rightarrow> 'a input \<Rightarrow> 'i list" where
  "prepareImages read images = map read (to_array images)"


section \<open>Extractive question answering\<close>










section \<open>Zero-shot classification\<close>








section \<open>Automatic speech recognition\<close>

text \<open>
  An audio item is a URL, read by \<open>read_audio\<close>, or an array of samples.
  \<open>typedArray.subarray(begin, stop)\<close> truncates its arguments to integers, counts a
  negative one from the end and clamps both to the array.
\<close>

datatype 'a audio = Url string | Samples "'a list"

definition preprocess :: "(string \<Rightarrow> real \<Rightarrow> 'a list) \<Rightarrow> 'a audio \<Rightarrow> real \<Rightarrow> 'a list" where
  "preprocess read_audio audio sampling_rate =
    (case audio of Url u \<Rightarrow> read_audio u sampling_rate | Samples xs \<Rightarrow> xs)"

definition relative_index :: "nat \<Rightarrow> real \<Rightarrow> nat" where
  "relative_index len x =
    (let i = (if 0 \<le> x then \<lfloor>x\<rfloor> else \<lceil>x\<rceil>)
     in if i < 0 then nat (max (int len + i) 0) else nat (min i (int len)))"

definition subarray :: "'a list \<Rightarrow> real \<Rightarrow> real \<Rightarrow> 'a list" where
  "subarray arr begin stop =
    (let from = relative_index (length arr) begin;
         to = relative_index (length arr) stop
     in take (to - from) (drop from arr))"

text \<open>
  A chunk as the window loop builds it, with its stride triple in samples, and as it is
  after generation, with the tokens of the top beam and the stride in seconds.
\<close>

record ('n, 'f) chunk =
  stride :: "'n list"
  input_features :: 'f
  is_last :: bool

record ('n, 'f, 't) generated_chunk = "('n, 'f) chunk" +
  tokens :: 't

text \<open>
  The loop \<open>while (offset < aud.length)\<close>. Nothing in it bounds the number of rounds, so
  it is a partial function: \<open>None\<close> is a loop that never ends.
\<close>

partial_function (option) window_loop ::
  "('a list \<Rightarrow> 'f) \<Rightarrow> real \<Rightarrow> real \<Rightarrow> real \<Rightarrow> 'a list \<Rightarrow> real \<Rightarrow> (real, 'f) chunk list
    \<Rightarrow> (real, 'f) chunk list option" where
  "window_loop processor window stride_size jump aud offset chunks =
    (if offset < real (length aud)
     then window_loop processor window stride_size jump aud (offset + jump)
            (chunks @
              [\<lparr>stride = [real (length (subarray aud offset (offset + window))),
                          if offset = 0 then 0 else stride_size,
                          if real (length aud) \<le> offset + jump then 0 else stride_size],
                input_features = processor (subarray aud offset (offset + window)),
                is_last = (real (length aud) \<le> offset + jump)\<rparr>])
     else Some chunks)"

definition windows ::
  "('a list \<Rightarrow> 'f) \<Rightarrow> real \<Rightarrow> real \<Rightarrow> real \<Rightarrow> 'a list \<Rightarrow> (real, 'f) chunk list option" where
  "windows processor sampling_rate chunk_length_s stride_length_s aud =
    (let window = sampling_rate * chunk_length_s;
         stride_size = sampling_rate * stride_length_s;
         jump = window - 2 * stride_size
     in window_loop processor window stride_size jump aud 0 [])"

text \<open>
  The chunks of one audio item, together with the value \<open>stride_length_s\<close> has afterwards:
  the variable is declared before the loop over the items, so a default computed for one
  item is the given value for the next.
\<close>

definition make_chunks ::
  "('a list \<Rightarrow> 'f) \<Rightarrow> real \<Rightarrow> real \<Rightarrow> real option \<Rightarrow> 'a list
    \<Rightarrow> (error + (real, 'f) chunk list \<times> real option) option" where
  "make_chunks processor sampling_rate chunk_length_s stride_length_s aud =
    (if 0 < chunk_length_s
     then (case stride_length_s of
             None \<Rightarrow>
               map_option (\<lambda>chunks. Inr (chunks, Some (chunk_length_s / 6)))
                 (windows processor sampling_rate chunk_length_s (chunk_length_s / 6) aud)
           | Some s \<Rightarrow>
               if chunk_length_s \<le> s
               then Some (Inl (Error ''`chunk_length_s` must be larger than `stride_length_s`.''))
               else map_option (\<lambda>chunks. Inr (chunks, Some s))
                      (windows processor sampling_rate chunk_length_s s aud))
     else Some (Inr ([\<lparr>stride = [real (length aud), 0, 0],
                         input_features = processor aud, is_last = True\<rparr>],
                     stride_length_s)))"

text \<open>\<open>model.generate\<close> followed by \<open>data[0].flat()\<close> is \<open>generate\<close>; the stride is
  divided by the sampling rate after it.\<close>

definition generate_chunk ::
  "('f \<Rightarrow> 't) \<Rightarrow> real \<Rightarrow> (real, 'f) chunk \<Rightarrow> (number, 'f, 't) generated_chunk" where
  "generate_chunk generate sampling_rate c =
    \<lparr>stride = map (\<lambda>x. js_div (Num x) (Num sampling_rate)) (stride c),
     input_features = input_features c, is_last = is_last c,
     tokens = generate (input_features c)\<rparr>"

text \<open>
  The options of a call. \<open>chunk_callback\<close> says whether a callback was given; what the
  callback is called with is returned beside the result, in order. \<open>decode_asr\<close> is the
  tokenizer's \<open>_decode_asr\<close> with its options, giving the object \<open>{text, ...optional}\<close>.
\<close>

record kwargs =
  chunk_length_s :: "real option"
  stride_length_s :: "real option"
  chunk_callback :: bool

fun transcribe ::
  "(string \<Rightarrow> real \<Rightarrow> 'a list) \<Rightarrow> ('a list \<Rightarrow> 'f) \<Rightarrow> ('f \<Rightarrow> 't)
    \<Rightarrow> ((number, 'f, 't) generated_chunk list \<Rightarrow> 'r) \<Rightarrow> real \<Rightarrow> real \<Rightarrow> bool
    \<Rightarrow> real option \<Rightarrow> 'a audio list
    \<Rightarrow> (error + 'r js list \<times> (number, 'f, 't) generated_chunk list) option" where
  "transcribe read_audio processor generate decode_asr sampling_rate chunk_len callback
      stride_len [] = Some (Inr ([], []))"
| "transcribe read_audio processor generate decode_asr sampling_rate chunk_len callback
      stride_len (aud # audio) =
    (case make_chunks processor sampling_rate chunk_len stride_len
            (preprocess read_audio aud sampling_rate) of
       None \<Rightarrow> None
     | Some (Inl e) \<Rightarrow> Some (Inl e)
     | Some (Inr (chunks, stride_len)) \<Rightarrow>
         (let chunks = map (generate_chunk generate sampling_rate) chunks
          in case transcribe read_audio processor generate decode_asr sampling_rate chunk_len
                    callback stride_len audio of
               None \<Rightarrow> None
             | Some (Inl e) \<Rightarrow> Some (Inl e)
             | Some (Inr (toReturn, called)) \<Rightarrow>
                 Some (Inr (Obj (decode_asr chunks) # toReturn,
                            (if callback then chunks else []) @ called))))"

definition AutomaticSpeechRecognitionPipeline_call ::
  "(string \<Rightarrow> real \<Rightarrow> 'a list) \<Rightarrow> ('a list \<Rightarrow> 'f) \<Rightarrow> ('f \<Rightarrow> 't)
    \<Rightarrow> ((number, 'f, 't) generated_chunk list \<Rightarrow> 'r) \<Rightarrow> real \<Rightarrow> 'a audio input \<Rightarrow> kwargs
    \<Rightarrow> (error + 'r js \<times> (number, 'f, 't) generated_chunk list) option" where
  "AutomaticSpeechRecognitionPipeline_call read_audio processor generate decode_asr
      sampling_rate audio kw =
    (let single = \<not> isArray audio
     in map_option
          (map_sum id (\<lambda>(toReturn, called).
             (if single then first toReturn else Arr toReturn, called)))
          (transcribe read_audio processor generate decode_asr sampling_rate
             (case chunk_length_s kw of None \<Rightarrow> 0 | Some c \<Rightarrow> c)
             (chunk_callback kw) (stride_length_s kw) (to_array audio)))"

section \<open>Image segmentation\<close>

text \<open>
  An image has its pixel data, width, height and number of channels. The processor's
  post-processing gives, per image, the segmentation map (shape \<open>[height, width]\<close>, one
  segment id per pixel) and the segments found.
\<close>

record custom_image =
  image_data :: "nat list"
  image_width :: nat
  image_height :: nat
  image_channels :: nat

record segment =
  segment_id :: nat
  segment_label_id :: nat
  segment_score :: real

record processed =
  segmentation :: "(nat \<times> nat, nat) tensor"
  segments_info :: "segment list"

record segmentation_options =
  threshold :: real
  mask_threshold :: real
  overlap_mask_area_threshold :: real
  label_ids_to_fuse :: "nat list option"
  target_sizes :: "(nat \<times> nat) list option"
  subtask :: "string option"

type_synonym 'o post_process =
  "'o \<Rightarrow> real \<Rightarrow> real \<Rightarrow> real \<Rightarrow> nat list option \<Rightarrow> (nat \<times> nat) list \<Rightarrow> processed list"

definition subtasks_mapping :: "(string \<times> string) list" where
  "subtasks_mapping =
    [(''panoptic'', ''post_process_panoptic_segmentation''),
     (''instance'', ''post_process_instance_segmentation''),
     (''semantic'', ''post_process_semantic_segmentation'')]"

text \<open>
  The values the variable \<open>fn\<close> takes: \<open>null\<close>; with an explicit subtask, whatever
  \<open>this.subtasks_mapping[subtask]\<close> is, that is the \<^emph>\<open>name\<close> of a post-processing
  function (a string) for the three subtasks and something else (\<open>undefined\<close> or a member
  of \<open>Object.prototype\<close>) for any other name; with no subtask, the method of the feature
  extractor that the probe found, bound to it. \<open>feature_extractor\<close> maps the name of a
  method to the method.
\<close>

datatype 'p fn_value = Null | Name string | Other | Method 'p

fun probe :: "(string \<Rightarrow> 'p option) \<Rightarrow> (string \<times> string) list \<Rightarrow> 'p fn_value \<times> string option" where
  "probe feature_extractor [] = (Null, None)"
| "probe feature_extractor ((task, func) # entries) =
    (case feature_extractor func of
       Some method \<Rightarrow> (Method method, Some task)
     | None \<Rightarrow> probe feature_extractor entries)"

definition select_fn ::
  "(string \<Rightarrow> 'p option) \<Rightarrow> string option \<Rightarrow> 'p fn_value \<times> string option" where
  "select_fn feature_extractor given =
    (case given of
       Some name \<Rightarrow>
         ((case get_property subtasks_mapping name of Own func \<Rightarrow> Name func | _ \<Rightarrow> Other),
          Some name)
     | None \<Rightarrow> probe feature_extractor subtasks_mapping)"

text \<open>The mask of a segment: 255 where the segmentation map has the segment's id, 0
  elsewhere, as an image of one channel with the map's width and height.\<close>

definition annotate ::
  "(nat \<Rightarrow> 'l option) \<Rightarrow> (nat \<times> nat, nat) tensor \<Rightarrow> segment \<Rightarrow> real \<times> 'l option \<times> custom_image" where
  "annotate id2label seg s =
    (segment_score s, id2label (segment_label_id s),
     \<lparr>image_data = map (\<lambda>v. if v = segment_id s then 255 else 0) (data seg),
      image_width = snd (dims seg), image_height = fst (dims seg), image_channels = 1\<rparr>)"

text \<open>\<open>model inputs\<close> is the model applied to \<open>processor(images)\<close>. An element of the
  result is the object \<open>{score, label, mask}\<close>.\<close>

definition ImageSegmentationPipeline_call ::
  "('a \<Rightarrow> custom_image) \<Rightarrow> (custom_image list \<Rightarrow> 'o) \<Rightarrow> (nat \<Rightarrow> 'l option)
    \<Rightarrow> (string \<Rightarrow> 'o post_process option) \<Rightarrow> 'a input \<Rightarrow> segmentation_options
    \<Rightarrow> error + (real \<times> 'l option \<times> custom_image) list" where
  "ImageSegmentationPipeline_call read model id2label feature_extractor images opts =
    (if isArray images \<and> length (to_array images) \<noteq> 1
     then Inl (Error ''Image segmentation pipeline currently only supports a batch size of 1.'')
     else
      (let images = prepareImages read images;
           imageSizes = map (\<lambda>x. (image_height x, image_width x)) images;
           output = model images;
           (fn, task) = select_fn feature_extractor (subtask opts)
       in if task = Some ''panoptic'' \<or> task = Some ''instance''
          then (case fn of
                  Method post_process \<Rightarrow>
                    (case post_process output (threshold opts) (mask_threshold opts)
                            (overlap_mask_area_threshold opts) (label_ids_to_fuse opts)
                            (case target_sizes opts of None \<Rightarrow> imageSizes | Some sizes \<Rightarrow> sizes) of
                       [] \<Rightarrow> Inl (TypeError ''processed is undefined'')
                     | first_processed # _ \<Rightarrow>
                         Inr (map (annotate id2label (segmentation first_processed))
                                (segments_info first_processed)))
                | _ \<Rightarrow> Inl (TypeError ''fn is not a function''))
          else if task = Some ''semantic''
          then Inl (Error ''semantic segmentation not yet supported.'')
          else Inl (Error (''Subtask '' @ (case task of None \<Rightarrow> ''null'' | Some name \<Rightarrow> name)
                           @ '' not supported.''))))"

section \<open>Mean pooling\<close>

text \<open>
  \<open>last_hidden_state\<close> is a tensor of shape \<open>[batchSize, seqLength, embedDim]\<close> with its
  flat data; of the attention mask only the flat data is read. The result has shape
  \<open>[batchSize, embedDim]\<close>; its entries are written in the order of \<open>outIndex\<close>.
\<close>

definition pool_step ::
  "real list \<Rightarrow> int list \<Rightarrow> nat \<Rightarrow> nat \<Rightarrow> nat \<Rightarrow> number \<times> number \<Rightarrow> nat \<Rightarrow> number \<times> number" where
  "pool_step lhs attention_mask embedDim attnMaskOffset offset2 acc j =
    (let (sum, count) = acc;
         attn = Number_at attention_mask (attnMaskOffset + j)
     in (js_add sum (js_mul (read_at lhs (offset2 + j * embedDim)) attn), js_add count attn))"

definition avg :: "real list \<Rightarrow> int list \<Rightarrow> nat \<Rightarrow> nat \<Rightarrow> nat \<Rightarrow> nat \<Rightarrow> number" where
  "avg lhs attention_mask seqLength embedDim i k =
    (let offset = i * embedDim * seqLength;
         attnMaskOffset = i * seqLength;
         offset2 = offset + k;
         (sum, count) = foldl (pool_step lhs attention_mask embedDim attnMaskOffset offset2)
                          (Num 0, Num 0) [0..<seqLength]
     in js_div sum count)"

definition mean_pooling ::
  "(nat \<times> nat \<times> nat, real) tensor \<Rightarrow> int list \<Rightarrow> (nat \<times> nat, number) tensor" where
  "mean_pooling last_hidden_state attention_mask =
    (let (batchSize, seqLength, embedDim) = dims last_hidden_state
     in \<lparr>dims = (batchSize, embedDim),
         data = concat (map (\<lambda>i. map (\<lambda>k. avg (data last_hidden_state) attention_mask
                                              seqLength embedDim i k) [0..<embedDim])
                            [0..<batchSize])\<rparr>)"

section \<open>Concrete collaborators for the worked examples\<close>








text \<open>Speech collaborators over samples that are reals: the features of a window are its
  samples, the tokens of a chunk are its number of samples, and the merged result is the
  list of token values.\<close>

definition example_read_audio :: "string \<Rightarrow> real \<Rightarrow> real list" where
  "example_read_audio url sampling_rate = []"

definition example_processor :: "real list \<Rightarrow> real list" where
  "example_processor subarr = subarr"

definition example_generate :: "real list \<Rightarrow> nat" where
  "example_generate features = length features"

definition example_decode_asr :: "(number, real list, nat) generated_chunk list \<Rightarrow> nat list" where
  "example_decode_asr chunks = map tokens chunks"

definition example_id2label :: "nat \<Rightarrow> string option" where
  "example_id2label i =
    (if i = 0 then Some ''NEGATIVE'' else if i = 1 then Some ''POSITIVE'' else None)"

chapter \<open>Properties\<close>

section \<open>Task resolution\<close>

lemma SUPPORTED_TASKS_keys:
  "Object_keys SUPPORTED_TASKS =
    [''text-classification'', ''token-classification'', ''question-answering'',
     ''fill-mask'', ''summarization'', ''translation'', ''text2text-generation'',
     ''text-generation'', ''zero-shot-classification'', ''automatic-speech-recognition'',
     ''image-to-text'', ''image-classification'', ''image-segmentation'',
     ''zero-shot-image-classification'', ''object-detection'', ''feature-extraction'']"
  by (simp add: Object_keys_def SUPPORTED_TASKS_def)

lemma vqa_alias: "get_property TASK_ALIASES ''vqa'' = Own ''visual-question-answering''"
  by (simp add: get_property_def TASK_ALIASES_def)

lemma vqa_not_registered:
  "get_property SUPPORTED_TASKS (first_segment ''visual-question-answering'') = Missing"
  by (simp add: get_property_def SUPPORTED_TASKS_def first_segment_def Object_prototype_def)

text \<open>
  C10. Whatever the model identifier and the options are, \<open>pipeline('vqa', ...)\<close> throws
  the unsupported-pipeline error whose message lists the registered keys: the alias map
  sends \<open>vqa\<close> to \<open>visual-question-answering\<close>, which the registry does not hold.
\<close>

theorem pipeline_vqa_unsupported:
  "pipeline ''vqa'' model pretrainedOptions =
     Inl (Error (''Unsupported pipeline: visual-question-answering. Must be one of ['' @
       join_comma (Object_keys SUPPORTED_TASKS) @ '']''))"
  by (simp add: pipeline_def vqa_alias vqa_not_registered unsupported_message_def)


text \<open>
  For a task name that is not a member name of \<open>Object.prototype\<close>, and whose first
  segment after alias resolution is not one either, the factory looks the name up in the
  alias map (exactly, falling back to the name itself), takes the first segment of the
  resolved name as the registry key, and either throws the unsupported-pipeline error or
  constructs the registered pipeline.
\<close>

lemma pipeline_registered_or_unsupported:
  assumes "task \<notin> set Object_prototype"
    and "first_segment (case map_of TASK_ALIASES task of None \<Rightarrow> task | Some t \<Rightarrow> t)
           \<notin> set Object_prototype"
  shows "pipeline task model pretrainedOptions =
    (let resolved = (case map_of TASK_ALIASES task of None \<Rightarrow> task | Some t \<Rightarrow> t) in
     case map_of SUPPORTED_TASKS (first_segment resolved) of
       None \<Rightarrow> Inl (Error (unsupported_message resolved))
     | Some pipelineInfo \<Rightarrow>
         Inr \<lparr>constructed = pipelineClass pipelineInfo, task_name = resolved,
              collaborators =
                from_pretrained (tokenizerClass pipelineInfo)
                  (model_or_default model (default_model pipelineInfo)) pretrainedOptions
              @ from_pretrained (Some (modelClass pipelineInfo))
                  (model_or_default model (default_model pipelineInfo)) pretrainedOptions
              @ from_pretrained (processorClass pipelineInfo)
                  (model_or_default model (default_model pipelineInfo)) pretrainedOptions\<rparr>)"
  using assms
  by (auto simp: pipeline_def get_property_def Let_def split: option.splits)

text \<open>
  C8. The claim holds for the names of the lemma above and not for every task name. Both
  tables are object literals, so \<open>TASK_ALIASES['constructor']\<close> is the function
  \<open>Object\<close>: the task becomes that function and \<open>task.split\<close> throws a
  \<open>TypeError\<close>. For \<open>toString_x\<close> the alias map has nothing, the registry key is
  \<open>toString\<close>, \<open>SUPPORTED_TASKS['toString']\<close> is a function and therefore truthy: the
  unsupported-pipeline error is skipped and the call fails later, in \<open>new pipelineClass\<close>,
  with a message that lists no keys.
\<close>

theorem pipeline_prototype_names:
  "pipeline ''constructor'' model pretrainedOptions =
     Inl (TypeError ''task.split is not a function'')
   \<and> pipeline ''toString_x'' (Some ''Xenova/gpt2'') pretrainedOptions =
     Inl (TypeError ''pipelineClass is not a constructor'')"
  by (simp add: pipeline_def get_property_def TASK_ALIASES_def SUPPORTED_TASKS_def
      Object_prototype_def first_segment_def model_or_default_def)

section \<open>Text and image classification\<close>

lemma sum_list_exp_pos:
  "arr \<noteq> [] \<Longrightarrow> 0 < sum_list (map (\<lambda>x. exp (x - c :: real)) arr)"
proof (induction arr)
  case Nil
  then show ?case by simp
next
  case (Cons a arr)
  have "0 \<le> sum_list (map (\<lambda>x. exp (x - c)) arr)"
    by (rule sum_list_nonneg) auto
  then show ?case
    by (simp add: add_pos_nonneg)
qed

lemma sum_list_divide_const:
  "sum_list (map (\<lambda>x. x / c) xs) = sum_list xs / (c :: real)"
  by (induction xs) (simp_all add: add_divide_distrib)

lemma softmax_sums_to_one:
  assumes "arr \<noteq> []"
  shows "sum_list (softmax arr) = 1"
proof -
  let ?exps = "map (\<lambda>x. exp (x - Max (set arr))) arr"
  have pos: "0 < sum_list ?exps"
    using assms by (rule sum_list_exp_pos)
  have "sum_list (map (\<lambda>x. x / sum_list ?exps) ?exps) = sum_list ?exps / sum_list ?exps"
    by (rule sum_list_divide_const)
  with pos show ?thesis
    using assms by (simp add: softmax_def Let_def)
qed

lemma length_softmax: "length (softmax arr) = length arr"
  by (simp add: softmax_def Let_def)

lemma length_getTopItems: "length (getTopItems items top_k) = min top_k (length items)"
  by (simp add: getTopItems_def sort_desc_def min.commute)

lemma descending_sort_desc: "descending (map score (sort_desc score arr))"
proof -
  have "sorted (map (\<lambda>x. - score x) (sort_key (\<lambda>x. - score x) arr))"
    by (rule sorted_sort_key)
  then show ?thesis
    by (simp add: descending_def sort_desc_def sorted_wrt_map)
qed

lemma descending_take: "descending xs \<Longrightarrow> descending (take n xs)"
  unfolding descending_def by (rule sorted_wrt_take)

lemma descending_getTopItems: "descending (map snd (getTopItems items top_k))"
  unfolding getTopItems_def take_map [symmetric]
  by (intro descending_take descending_sort_desc)

lemma set_getTopItems:
  "set (getTopItems items top_k) \<subseteq> {(i, items ! i) | i. i < length items}"
proof -
  have "set (getTopItems items top_k) \<subseteq> set (enumerate 0 items)"
    unfolding getTopItems_def sort_desc_def using set_take_subset [of top_k] by fastforce
  also have "\<dots> = {(i, items ! i) | i. i < length items}"
    by (auto simp: in_set_enumerate_eq)
  finally show ?thesis .
qed

lemma softmax_example: "softmax [0, ln 3] = [1/4, 3/4]"
  by (simp add: softmax_def Let_def exp_minus exp_diff)

lemma vals_example:
  "vals example_id2label 1 [0, ln 3] = [(Some ''POSITIVE'', 3/4)]"
  "vals example_id2label (Suc 0) [0, ln 3] = [(Some ''POSITIVE'', 3/4)]"
  "vals example_id2label 3 [0, ln 3] = [(Some ''POSITIVE'', 3/4), (Some ''NEGATIVE'', 1/4)]"
  by (simp_all add: vals_def softmax_example getTopItems_def sort_desc_def
      enumerate_eq_zip example_id2label_def)

lemma vals_from_table:
  assumes "v \<in> set (vals id2label topk batch)"
  shows "\<exists>i<length batch. v = (id2label i, softmax batch ! i)"
proof -
  from assms obtain x where x: "x \<in> set (getTopItems (softmax batch) topk)"
    and v: "v = (id2label (fst x), snd x)"
    by (auto simp: vals_def)
  from x set_getTopItems [of "softmax batch" topk]
  obtain i where "i < length (softmax batch)" "x = (i, softmax batch ! i)" by auto
  with v show ?thesis by (auto simp: length_softmax)
qed

lemma classification_vals_one:
  assumes "topk = 1" "batch \<noteq> []"
  shows "\<exists>v. vals id2label topk batch = [v]
            \<and> push_vals topk (vals id2label topk batch) = [Obj v]"
proof -
  from assms have "length (vals id2label topk batch) = 1"
    by (cases batch) (simp_all add: vals_def length_getTopItems length_softmax)
  then obtain v where "vals id2label topk batch = [v]"
    by (auto simp: length_Suc_conv)
  with assms show ?thesis by (simp add: push_vals_def)
qed

text \<open>
  C3, as amended. For every logits row of a text or image classification: the scores are
  the softmax of the row, which sums to 1 when the row is not empty; the decoder returns
  \<open>min topk (number of labels)\<close> pairs (not always \<open>topk\<close>), in descending order of
  score; each pair is the score of some index together with that index's entry in
  \<open>id2label\<close>; with \<open>topk = 1\<close> the single pair of a non-empty row is pushed as a flat
  element, with any other \<open>topk\<close> the list of pairs is pushed as one nested array.
\<close>

theorem classification_topk:
  "(batch \<noteq> [] \<longrightarrow> sum_list (softmax batch) = 1)
   \<and> length (vals id2label topk batch) = min topk (length batch)
   \<and> descending (map snd (vals id2label topk batch))
   \<and> (\<forall>v \<in> set (vals id2label topk batch).
         \<exists>i<length batch. v = (id2label i, softmax batch ! i))
   \<and> (topk = 1 \<and> batch \<noteq> [] \<longrightarrow>
         (\<exists>v. vals id2label topk batch = [v]
            \<and> push_vals topk (vals id2label topk batch) = [Obj v]))
   \<and> (topk \<noteq> 1 \<longrightarrow>
         push_vals topk (vals id2label topk batch) = [Arr (map Obj (vals id2label topk batch))])"
proof -
  have len: "length (vals id2label topk batch) = min topk (length batch)"
    by (simp add: vals_def length_getTopItems length_softmax)
  have "map snd (vals id2label topk batch) = map snd (getTopItems (softmax batch) topk)"
    by (simp add: vals_def)
  then have desc: "descending (map snd (vals id2label topk batch))"
    by (simp add: descending_getTopItems)
  show ?thesis
    using len desc classification_vals_one [of topk batch id2label] vals_from_table [of _ id2label topk batch]
    by (simp add: softmax_sums_to_one push_vals_def)
qed

theorem classification_topk_witness:
  "sum_list (softmax [0, ln 3]) = 1
   \<and> length (vals example_id2label 1 [0, ln 3]) = 1
   \<and> push_vals 1 (vals example_id2label 1 [0, ln 3]) = [Obj (Some ''POSITIVE'', 3/4)]
   \<and> push_vals 3 (vals example_id2label 3 [0, ln 3])
        = [Arr [Obj (Some ''POSITIVE'', 3/4), Obj (Some ''NEGATIVE'', 1/4)]]"
  using classification_topk [of "[0, ln 3]" example_id2label 1]
    classification_topk [of "[0, ln 3]" example_id2label 3]
  by (simp add: vals_example push_vals_def)

text \<open>With two labels and \<open>topk = 3\<close> the decoder returns two pairs, not three.\<close>

theorem classification_topk_counterexample:
  "length (vals example_id2label 3 [0, ln 3]) = 2"
  by (simp add: vals_example)






section \<open>Extractive question answering\<close>













section \<open>Zero-shot classification\<close>













section \<open>Automatic speech recognition\<close>

lemma window_loop_stuck:
  assumes "window_loop processor window stride_size jump aud offset chunks = Some result"
  shows "0 < jump \<or> real (length aud) \<le> offset"
proof (rule window_loop.raw_induct
        [where P = "\<lambda>processor window stride_size jump aud offset chunks result.
                       0 < jump \<or> real (length aud) \<le> offset", OF _ assms], goal_cases)
  case (1 loop processor window stride_size jump aud offset chunks result)
  show ?case
  proof (cases "offset < real (length aud)")
    case True
    with 1(2) have "\<exists>c. loop processor window stride_size jump aud (offset + jump) c = Some result"
      by auto
    then obtain c where "loop processor window stride_size jump aud (offset + jump) c = Some result" ..
    from 1(1) [OF this] show ?thesis by linarith
  next
    case False
    then show ?thesis by simp
  qed
qed

lemma window_loop_diverges:
  "jump \<le> 0 \<Longrightarrow> offset < real (length aud) \<Longrightarrow>
     window_loop processor window stride_size jump aud offset chunks = None"
  using window_loop_stuck [of processor window stride_size jump aud offset chunks]
  by (cases "window_loop processor window stride_size jump aud offset chunks") auto

lemma window_count:
  assumes "0 < jump"
  shows "real i * jump < real len \<longleftrightarrow> i < nat \<lceil>real len / jump\<rceil>"
proof -
  have "real i * jump < real len \<longleftrightarrow> real_of_int (int i) < real len / jump"
    using assms by (simp add: pos_less_divide_eq)
  also have "\<dots> \<longleftrightarrow> int i < \<lceil>real len / jump\<rceil>"
    by (simp only: less_ceiling_iff)
  also have "\<dots> \<longleftrightarrow> i < nat \<lceil>real len / jump\<rceil>"
    by linarith
  finally show ?thesis .
qed

lemma window_loop_chunks:
  assumes "0 < jump" and N: "N = nat \<lceil>real (length aud) / jump\<rceil>" and "k \<le> N"
  shows "window_loop processor window stride_size jump aud (real k * jump) chunks =
    Some (chunks @ map (\<lambda>i.
       \<lparr>stride = [real (length (subarray aud (real i * jump) (real i * jump + window))),
                  if i = 0 then 0 else stride_size,
                  if Suc i < N then stride_size else 0],
        input_features = processor (subarray aud (real i * jump) (real i * jump + window)),
        is_last = (\<not> Suc i < N)\<rparr>)
      [k..<N])"
  using assms(3)
proof (induction "N - k" arbitrary: k chunks)
  case 0
  then have "k = N" by arith
  then have "\<not> real k * jump < real (length aud)"
    using window_count [OF assms(1), of k "length aud"] N by simp
  then show ?case
    using \<open>k = N\<close> by (subst window_loop.simps) simp
next
  case (Suc m)
  then have less: "k < N" by arith
  then have run: "real k * jump < real (length aud)"
    using window_count [OF assms(1), of k "length aud"] N by simp
  have first: "real k * jump = 0 \<longleftrightarrow> k = 0"
    using assms(1) by simp
  have "real (Suc k) * jump < real (length aud) \<longleftrightarrow> Suc k < N"
    using window_count [OF assms(1), of "Suc k" "length aud"] N by simp
  then have last: "real (length aud) \<le> real (Suc k) * jump \<longleftrightarrow> \<not> Suc k < N"
    by (simp only: not_less [symmetric])
  have next_offset: "real k * jump + jump = real (Suc k) * jump"
    by (simp add: algebra_simps)
  have "m = N - Suc k" "Suc k \<le> N"
    using Suc.hyps(2) less by arith+
  then have IH: "window_loop processor window stride_size jump aud (real (Suc k) * jump) cs =
    Some (cs @ map (\<lambda>i.
       \<lparr>stride = [real (length (subarray aud (real i * jump) (real i * jump + window))),
                  if i = 0 then 0 else stride_size,
                  if Suc i < N then stride_size else 0],
        input_features = processor (subarray aud (real i * jump) (real i * jump + window)),
        is_last = (\<not> Suc i < N)\<rparr>)
      [Suc k..<N])" for cs
    by (rule Suc.hyps(1))
  show ?case
    apply (subst window_loop.simps)
    apply (simp only: run if_True first next_offset last IH)
    apply (simp add: upt_conv_Cons [OF less])
    done
qed

lemma windows_chunks:
  assumes "0 < sampling_rate * c - 2 * (sampling_rate * s)"
  shows "windows processor sampling_rate c s aud =
    Some (map (\<lambda>i.
       \<lparr>stride = [real (length (subarray aud
                      (real i * (sampling_rate * c - 2 * (sampling_rate * s)))
                      (real i * (sampling_rate * c - 2 * (sampling_rate * s)) + sampling_rate * c))),
                  if i = 0 then 0 else sampling_rate * s,
                  if Suc i < nat \<lceil>real (length aud) / (sampling_rate * c - 2 * (sampling_rate * s))\<rceil>
                  then sampling_rate * s else 0],
        input_features = processor (subarray aud
                      (real i * (sampling_rate * c - 2 * (sampling_rate * s)))
                      (real i * (sampling_rate * c - 2 * (sampling_rate * s)) + sampling_rate * c)),
        is_last = (\<not> Suc i < nat \<lceil>real (length aud) / (sampling_rate * c - 2 * (sampling_rate * s))\<rceil>)\<rparr>)
      [0..<nat \<lceil>real (length aud) / (sampling_rate * c - 2 * (sampling_rate * s))\<rceil>])"
  using window_loop_chunks [OF assms refl, of 0 aud processor "sampling_rate * c" "sampling_rate * s" "[]"]
  by (simp add: windows_def Let_def)

text \<open>
  Where the advance \<open>window - 2 * stride\<close> is positive the loop ends after
  \<open>\<lceil>length / advance\<rceil>\<close> windows, taken at the offsets \<open>0, advance, 2 * advance, ...\<close>
  below the length of the signal: the first has left overlap 0, the last has right
  overlap 0 and is marked last, every other one has the stride on both sides
  (\<open>windows_chunks\<close>). With \<open>chunk_length_s\<close> not above 0 the clip is one chunk, and the
  stride triple is divided by the sampling rate after generation.
\<close>

lemma make_chunks_whole_clip:
  "\<not> 0 < c \<Longrightarrow> make_chunks processor sampling_rate c stride_len aud =
     Some (Inr ([\<lparr>stride = [real (length aud), 0, 0], input_features = processor aud,
                   is_last = True\<rparr>], stride_len))"
  by (simp add: make_chunks_def)

lemma generate_chunk_seconds:
  "stride (generate_chunk generate sampling_rate c)
     = map (\<lambda>x. js_div (Num x) (Num sampling_rate)) (stride c)
   \<and> tokens (generate_chunk generate sampling_rate c) = generate (input_features c)
   \<and> is_last (generate_chunk generate sampling_rate c) = is_last c"
  by (simp add: generate_chunk_def)

lemma windows_example:
  "windows example_processor 1 6 1 [0, 1, 2, 3, 4, 5, 6, 7, 8, 9] =
     Some [\<lparr>stride = [6, 0, 1], input_features = [0, 1, 2, 3, 4, 5], is_last = False\<rparr>,
           \<lparr>stride = [6, 1, 1], input_features = [4, 5, 6, 7, 8, 9], is_last = False\<rparr>,
           \<lparr>stride = [2, 1, 0], input_features = [8, 9], is_last = True\<rparr>]"
proof -
  have n: "nat \<lceil>real (length [0, 1, 2, 3, 4, 5, 6, 7, 8, 9 :: real]) / (1 * 6 - 2 * (1 * 1))\<rceil> = 3"
    by simp
  have upt: "[0..<3] = [0, 1, 2]"
    by (simp add: upt_rec)
  show ?thesis
    by (subst windows_chunks, simp, simp only: n upt)
       (simp add: subarray_def relative_index_def example_processor_def)
qed

lemma make_chunks_default:
  assumes "0 < c"
  shows "make_chunks processor sampling_rate c None aud
       = make_chunks processor sampling_rate c (Some (c / 6)) aud"
  using assms by (simp add: make_chunks_def)

lemma transcribe_default:
  assumes "0 < c"
  shows "transcribe read_audio processor generate decode_asr sampling_rate c callback None audio
       = transcribe read_audio processor generate decode_asr sampling_rate c callback
           (Some (c / 6)) audio"
  by (cases audio) (simp_all add: make_chunks_default [OF assms])

lemma transcribe_rejects:
  assumes "0 < c" "c \<le> s"
  shows "transcribe read_audio processor generate decode_asr sampling_rate c callback (Some s)
           (aud # audio)
       = Some (Inl (Error ''`chunk_length_s` must be larger than `stride_length_s`.''))"
  using assms by (simp add: make_chunks_def)

text \<open>
  C7, as amended. For an ASR call with \<open>chunk_length_s > 0\<close> and at least one audio
  item: a given \<open>stride_length_s\<close> that is not below \<open>chunk_length_s\<close> makes the call throw
  the validation error; with no \<open>stride_length_s\<close> the call is the call with
  \<open>stride_length_s = chunk_length_s / 6\<close>.
\<close>

theorem asr_stride_validation:
  assumes "chunk_length_s kw = Some c" and "0 < c" and "to_array audio \<noteq> []"
  shows
    "(\<forall>s. stride_length_s kw = Some s \<and> c \<le> s \<longrightarrow>
        AutomaticSpeechRecognitionPipeline_call read_audio processor generate decode_asr
          sampling_rate audio kw
        = Some (Inl (Error ''`chunk_length_s` must be larger than `stride_length_s`.'')))
   \<and> (stride_length_s kw = None \<longrightarrow>
        AutomaticSpeechRecognitionPipeline_call read_audio processor generate decode_asr
          sampling_rate audio kw
        = AutomaticSpeechRecognitionPipeline_call read_audio processor generate decode_asr
          sampling_rate audio (kw\<lparr>stride_length_s := Some (c / 6)\<rparr>))"
proof -
  from assms(3) obtain aud rest where audio: "to_array audio = aud # rest"
    by (cases "to_array audio") auto
  have rejects: "AutomaticSpeechRecognitionPipeline_call read_audio processor generate decode_asr
          sampling_rate audio kw
        = Some (Inl (Error ''`chunk_length_s` must be larger than `stride_length_s`.''))"
    if "stride_length_s kw = Some s" "c \<le> s" for s
    using that assms(1,2) audio
    by (simp add: AutomaticSpeechRecognitionPipeline_call_def transcribe_rejects
        del: transcribe.simps)
  have default: "AutomaticSpeechRecognitionPipeline_call read_audio processor generate decode_asr
          sampling_rate audio kw
        = AutomaticSpeechRecognitionPipeline_call read_audio processor generate decode_asr
          sampling_rate audio (kw\<lparr>stride_length_s := Some (c / 6)\<rparr>)"
    if "stride_length_s kw = None"
    using that assms(1,2)
    by (simp add: AutomaticSpeechRecognitionPipeline_call_def transcribe_default)
  from rejects default show ?thesis by blast
qed

theorem asr_stride_validation_witness:
  "AutomaticSpeechRecognitionPipeline_call example_read_audio example_processor
     example_generate example_decode_asr 16000 (Single (Samples [0, 0, 0]))
     \<lparr>chunk_length_s = Some 30, stride_length_s = Some 40, chunk_callback = False\<rparr>
   = Some (Inl (Error ''`chunk_length_s` must be larger than `stride_length_s`.''))"
  using asr_stride_validation
    [of "\<lparr>chunk_length_s = Some 30, stride_length_s = Some 40, chunk_callback = False\<rparr>"
        30 "Single (Samples [0, 0, 0])" example_read_audio example_processor
        example_generate example_decode_asr 16000]
  by simp

text \<open>With an empty array of audio items nothing is validated and nothing is thrown.\<close>

theorem asr_stride_validation_counterexample:
  "AutomaticSpeechRecognitionPipeline_call example_read_audio example_processor
     example_generate example_decode_asr 16000 (Many [])
     \<lparr>chunk_length_s = Some 30, stride_length_s = Some 40, chunk_callback = False\<rparr>
   = Some (Inr (Arr [], []))"
  by (simp add: AutomaticSpeechRecognitionPipeline_call_def)

text \<open>
  C4. With \<open>chunk_length_s = 30\<close> and \<open>stride_length_s = 15\<close> the validation passes,
  the advance \<open>window - 2 * stride\<close> is 0, the offset stays 0 and the window loop of a
  non-empty clip never ends: the call has no result.
\<close>

theorem asr_half_stride_diverges:
  "AutomaticSpeechRecognitionPipeline_call read_audio processor generate decode_asr 16000
     (Single (Samples [x]))
     \<lparr>chunk_length_s = Some 30, stride_length_s = Some 15, chunk_callback = callback\<rparr>
   = None"
proof -
  have "windows processor 16000 30 15 [x] = None"
    unfolding windows_def Let_def by (rule window_loop_diverges) simp_all
  then show ?thesis
    by (simp add: AutomaticSpeechRecognitionPipeline_call_def make_chunks_def preprocess_def)
qed

section \<open>Image segmentation\<close>

lemma select_fn_explicit:
  "select_fn feature_extractor (Some ''panoptic'')
     = (Name ''post_process_panoptic_segmentation'', Some ''panoptic'')"
  "select_fn feature_extractor (Some ''instance'')
     = (Name ''post_process_instance_segmentation'', Some ''instance'')"
  by (simp_all add: select_fn_def get_property_def subtasks_mapping_def)

text \<open>
  With no subtask the processor is probed for the panoptic, the instance and the semantic
  post-processing, in that order, and the first one it has is taken.
\<close>

lemma select_fn_probe:
  "select_fn feature_extractor None =
    (case feature_extractor ''post_process_panoptic_segmentation'' of
       Some method \<Rightarrow> (Method method, Some ''panoptic'')
     | None \<Rightarrow>
        (case feature_extractor ''post_process_instance_segmentation'' of
           Some method \<Rightarrow> (Method method, Some ''instance'')
         | None \<Rightarrow>
            (case feature_extractor ''post_process_semantic_segmentation'' of
               Some method \<Rightarrow> (Method method, Some ''semantic'')
             | None \<Rightarrow> (Null, None))))"
  by (simp add: select_fn_def subtasks_mapping_def split: option.splits)

text \<open>
  On the probed panoptic or instance path the post-processing is applied to the model's
  output with the four options and the target sizes (the image sizes by default), and
  every segment of the first result is annotated with its score, its label from
  \<open>id2label\<close> and the mask of the pixels that carry its id.
\<close>

lemma segmentation_probed:
  assumes "subtask opts = None"
    and "select_fn feature_extractor None = (Method post_process, Some task)"
    and "task = ''panoptic'' \<or> task = ''instance''"
    and "\<not> (isArray images \<and> length (to_array images) \<noteq> 1)"
    and "post_process (model (prepareImages read images)) (threshold opts) (mask_threshold opts)
           (overlap_mask_area_threshold opts) (label_ids_to_fuse opts)
           (case target_sizes opts of
              None \<Rightarrow> map (\<lambda>x. (image_height x, image_width x)) (prepareImages read images)
            | Some sizes \<Rightarrow> sizes) = first_processed # others"
  shows "ImageSegmentationPipeline_call read model id2label feature_extractor images opts
    = Inr (map (\<lambda>s. (segment_score s, id2label (segment_label_id s),
                 \<lparr>image_data = map (\<lambda>v. if v = segment_id s then 255 else 0)
                                 (data (segmentation first_processed)),
                  image_width = snd (dims (segmentation first_processed)),
                  image_height = fst (dims (segmentation first_processed)),
                  image_channels = 1\<rparr>))
            (segments_info first_processed))"
  using assms
  by (auto simp: ImageSegmentationPipeline_call_def Let_def annotate_def)

text \<open>
  C9. With the subtask given as \<open>panoptic\<close> or \<open>instance\<close>, \<open>fn\<close> is the string found in
  \<open>subtasks_mapping\<close>, not the processor's method, and calling it throws a
  \<open>TypeError\<close>: no post-processing is applied and no annotation is produced, whatever
  the image, the model and the processor are.
\<close>

theorem segmentation_explicit_subtask:
  "ImageSegmentationPipeline_call read model id2label feature_extractor (Single image)
     (opts\<lparr>subtask := Some ''panoptic''\<rparr>) = Inl (TypeError ''fn is not a function'')
   \<and> ImageSegmentationPipeline_call read model id2label feature_extractor (Single image)
     (opts\<lparr>subtask := Some ''instance''\<rparr>) = Inl (TypeError ''fn is not a function'')"
  by (simp add: ImageSegmentationPipeline_call_def select_fn_explicit)

section \<open>Mean pooling\<close>

lemma nth_concat_rows:
  "i < b \<Longrightarrow> k < e \<Longrightarrow>
     concat (map (\<lambda>i. map (f i) [0..<e]) [0..<b]) ! (i * e + k) = f i k"
proof (induction b)
  case 0
  then show ?case by simp
next
  case (Suc b)
  have len: "length (concat (map (\<lambda>i. map (f i) [0..<e]) [0..<b])) = b * e"
    by (induction b) simp_all
  show ?case
  proof (cases "i < b")
    case True
    then have "i * e + k < b * e"
      using Suc.prems(2) by (metis add.commute add_less_cancel_left less_le_trans mult.commute mult_Suc_right mult_le_mono2 Suc_leI)
    with True Suc show ?thesis by (simp add: nth_append len)
  next
    case False
    with Suc.prems have "i = b" by simp
    with Suc.prems show ?thesis by (simp add: nth_append len)
  qed
qed

lemma length_concat_rows:
  "length (concat (map (\<lambda>i. map (f i) [0..<e]) [0..<b])) = b * e"
  by (induction b) simp_all

lemma pool_step_in_range:
  "offset2 + j * e < length lhs \<Longrightarrow> amo + j < length m \<Longrightarrow>
   pool_step lhs m e amo offset2 (Num x, Num y) j =
     (Num (x + lhs ! (offset2 + j * e) * of_int (m ! (amo + j))),
      Num (y + of_int (m ! (amo + j))))"
  by (simp add: pool_step_def read_at_def Number_at_def)

lemma foldl_pool_step:
  assumes "\<forall>j<n. offset2 + j * e < length lhs \<and> amo + j < length m"
  shows "foldl (pool_step lhs m e amo offset2) (Num a, Num c) [0..<n] =
     (Num (a + (\<Sum>j<n. lhs ! (offset2 + j * e) * of_int (m ! (amo + j)))),
      Num (c + (\<Sum>j<n. of_int (m ! (amo + j)))))"
  using assms
proof (induction n)
  case 0
  then show ?case by simp
next
  case (Suc n)
  have IH: "foldl (pool_step lhs m e amo offset2) (Num a, Num c) [0..<n] =
     (Num (a + (\<Sum>j<n. lhs ! (offset2 + j * e) * of_int (m ! (amo + j)))),
      Num (c + (\<Sum>j<n. of_int (m ! (amo + j)))))"
    using Suc by simp
  have "offset2 + n * e < length lhs" "amo + n < length m"
    using Suc.prems by simp_all
  then show ?case
    by (simp add: IH pool_step_in_range add.assoc)
qed

lemma index_in_range:
  fixes i k j b s e :: nat
  assumes "i < b" "k < e" "j < s"
  shows "i * e * s + k + j * e < b * s * e"
proof -
  have "j * e + k < s * e"
  proof -
    have "j * e + k < j * e + e" using assms by simp
    also have "\<dots> = Suc j * e" by simp
    also have "\<dots> \<le> s * e" using assms by (intro mult_le_mono1) simp
    finally show ?thesis .
  qed
  then have "i * e * s + k + j * e < i * e * s + s * e" by simp
  also have "\<dots> = Suc i * (s * e)" by (simp add: algebra_simps)
  also have "\<dots> \<le> b * (s * e)" using assms by (intro mult_le_mono1) simp
  finally show ?thesis by (simp add: mult.assoc)
qed

lemma mask_in_range:
  fixes i j b s :: nat
  assumes "i < b" "j < s"
  shows "i * s + j < b * s"
proof -
  have "i * s + j < Suc i * s" using assms by simp
  also have "\<dots> \<le> b * s" using assms by (intro mult_le_mono1) simp
  finally show ?thesis .
qed

lemma avg_in_range:
  assumes "length lhs = b * s * e" "length m = b * s" "i < b" "k < e"
  shows "avg lhs m s e i k =
    js_div (Num (\<Sum>j<s. lhs ! (i * e * s + k + j * e) * of_int (m ! (i * s + j))))
           (Num (\<Sum>j<s. of_int (m ! (i * s + j))))"
proof -
  have "\<forall>j<s. i * e * s + k + j * e < length lhs \<and> i * s + j < length m"
    using assms by (simp add: index_in_range mask_in_range)
  from foldl_pool_step [OF this, of 0 0] show ?thesis
    by (simp add: avg_def)
qed

lemma masked_sum:
  fixes m :: "nat \<Rightarrow> int"
  assumes "\<forall>j<s. m j = 0 \<or> m j = 1"
  shows "(\<Sum>j<s. d j * of_int (m j)) = (\<Sum>j | j < s \<and> m j = 1. (d j :: real))"
proof -
  have "(\<Sum>j<s. d j * of_int (m j)) = (\<Sum>j\<in>{..<s}. if m j = 1 then d j else 0)"
    using assms by (intro sum.cong) auto
  also have "\<dots> = (\<Sum>j\<in>{j \<in> {..<s}. m j = 1}. d j)"
    by (rule sum.inter_filter [symmetric]) simp
  also have "{j \<in> {..<s}. m j = 1} = {j. j < s \<and> m j = 1}"
    by auto
  finally show ?thesis .
qed

lemma masked_count:
  fixes m :: "nat \<Rightarrow> int"
  assumes "\<forall>j<s. m j = 0 \<or> m j = 1"
  shows "(\<Sum>j<s. (of_int (m j) :: real)) = real (card {j. j < s \<and> m j = 1})"
  using masked_sum [OF assms, of "\<lambda>_. 1"] by simp

text \<open>
  C6. For a hidden state of shape \<open>[b, s, e]\<close>, a mask of shape \<open>[b, s]\<close> holding zeros
  and ones, every batch item \<open>i\<close> and every embedding dimension \<open>k\<close>: the pooled entry is
  the sum of the activations at the unmasked positions divided by the number of unmasked
  positions (masked positions add nothing to the sum and are not counted). With a mask of
  ones it is the arithmetic mean over the sequence axis; with a mask of zeros the division
  is \<open>0 / 0\<close> and the entry is \<open>NaN\<close>: a value, not an exception.
\<close>

theorem mean_pooling_masked_mean:
  assumes "dims t = (b, s, e)" and "length (data t) = b * s * e" and "length m = b * s"
    and "set m \<subseteq> {0, 1}" and "i < b" and "k < e"
  shows "data (mean_pooling t m) ! (i * e + k) =
           js_div (Num (\<Sum>j | j < s \<and> m ! (i * s + j) = 1. data t ! (i * e * s + k + j * e)))
                  (Num (real (card {j. j < s \<and> m ! (i * s + j) = 1})))
       \<and> ((\<forall>j<s. m ! (i * s + j) = 1) \<and> 0 < s \<longrightarrow>
            data (mean_pooling t m) ! (i * e + k) =
              Num ((\<Sum>j<s. data t ! (i * e * s + k + j * e)) / real s))
       \<and> ((\<forall>j<s. m ! (i * s + j) = 0) \<longrightarrow> data (mean_pooling t m) ! (i * e + k) = NaN)"
proof -
  let ?d = "\<lambda>j. data t ! (i * e * s + k + j * e)"
  let ?m = "\<lambda>j. m ! (i * s + j)"
  let ?out = "data (mean_pooling t m) ! (i * e + k)"
  have binary: "\<forall>j<s. ?m j = 0 \<or> ?m j = 1"
  proof (intro allI impI)
    fix j assume "j < s"
    then have "i * s + j < length m" using assms by (simp add: mask_in_range)
    then have "?m j \<in> set m" by simp
    with assms(4) show "?m j = 0 \<or> ?m j = 1" by auto
  qed
  have "?out = avg (data t) m s e i k"
    using assms by (simp add: mean_pooling_def nth_concat_rows)
  also have "\<dots> = js_div (Num (\<Sum>j<s. ?d j * of_int (?m j))) (Num (\<Sum>j<s. of_int (?m j)))"
    using assms by (intro avg_in_range) auto
  also have "\<dots> = js_div (Num (\<Sum>j | j < s \<and> ?m j = 1. ?d j))
                         (Num (real (card {j. j < s \<and> ?m j = 1})))"
    by (simp only: masked_sum [OF binary] masked_count [OF binary])
  finally have main: "?out = js_div (Num (\<Sum>j | j < s \<and> ?m j = 1. ?d j))
                         (Num (real (card {j. j < s \<and> ?m j = 1})))" .
  have ones: "?out = Num ((\<Sum>j<s. ?d j) / real s)" if "\<forall>j<s. ?m j = 1" "0 < s"
  proof -
    have "{j. j < s \<and> ?m j = 1} = {..<s}" using that by auto
    with main that show ?thesis by simp
  qed
  have zeros: "?out = NaN" if "\<forall>j<s. ?m j = 0"
  proof -
    have "{j. j < s \<and> ?m j = 1} = {}" using that by auto
    with main show ?thesis by simp
  qed
  from main ones zeros show ?thesis by blast
qed

theorem mean_pooling_masked_mean_witness:
  "data (mean_pooling \<lparr>dims = (1, 2, 1), data = [2, 4]\<rparr> [1, 1]) ! 0 = Num 3
   \<and> data (mean_pooling \<lparr>dims = (1, 2, 1), data = [2, 4]\<rparr> [0, 0]) ! 0 = NaN"
proof -
  let ?t = "\<lparr>dims = (1::nat, 2::nat, 1::nat), data = [2, 4 :: real]\<rparr>"
  have shape: "dims ?t = (1, 2, 1)" "length (data ?t) = 1 * 2 * 1" "(0::nat) < 1"
    by simp_all
  have ones: "length [1, 1 :: int] = 1 * 2" "set [1, 1 :: int] \<subseteq> {0, 1}"
      "(\<forall>j<2. [1, 1 :: int] ! (0 * 2 + j) = 1) \<and> (0::nat) < 2"
    by (simp_all add: numeral_2_eq_2 All_less_Suc)
  have zeros: "length [0, 0 :: int] = 1 * 2" "set [0, 0 :: int] \<subseteq> {0, 1}"
      "\<forall>j<2. [0, 0 :: int] ! (0 * 2 + j) = 0"
    by (simp_all add: numeral_2_eq_2 All_less_Suc)
  have "data (mean_pooling ?t [1, 1]) ! (0 * 1 + 0)
          = Num ((\<Sum>j<2. data ?t ! (0 * 1 * 2 + 0 + j * 1)) / real 2)"
    using mean_pooling_masked_mean [OF shape(1,2) ones(1,2) shape(3,3)] ones(3) by blast
  moreover have "data (mean_pooling ?t [0, 0]) ! (0 * 1 + 0) = NaN"
    using mean_pooling_masked_mean [OF shape(1,2) zeros(1,2) shape(3,3)] zeros(3) by blast
  ultimately show ?thesis by (simp add: numeral_2_eq_2)
qed

end
